theory Spec2Isabelle
  imports Main "HOL-Library.Word"
begin

section \<open>The attestation verifier of pkg/kritis/cryptolib/verifier.go\<close>

text \<open>
  The development embeds the Go file \<^verbatim>\<open>pkg/kritis/cryptolib/verifier.go\<close>: the key index
  built by \<^verbatim>\<open>indexPublicKeysByID\<close>, the constructor \<^verbatim>\<open>NewVerifier\<close>, the method
  \<^verbatim>\<open>VerifyAttestation\<close>, the two stub backends of the file, the payload extractor
  \<^verbatim>\<open>formAuthenticatedAttestation\<close> and the digest check
  \<^verbatim>\<open>checkAuthenticatedAttestation\<close>.
\<close>

subsection \<open>Values\<close>

text \<open>A Go \<^verbatim>\<open>[]byte\<close>. A nil slice and an empty slice are both the empty list.\<close>

type_synonym bytes = "8 word list"

text \<open>
  A Go \<^verbatim>\<open>error\<close> value, named by the call that makes it: \<^verbatim>\<open>errors.New(msg)\<close>, or
  \<^verbatim>\<open>fmt.Errorf(format, args)\<close> with its format string and its (string) arguments. The nil
  error is \<open>None\<close> of \<open>error option\<close>.
\<close>

datatype error = errors_New string | fmt_Errorf string "string list"

text \<open>A line written to the log by \<^verbatim>\<open>glog.Warningf(format, args)\<close>.\<close>

datatype logline = glog_Warningf string "string list"

text \<open>
  Modelled from the spec: the declaration of the type \<^verbatim>\<open>KeyType\<close> is not in verifier.go. The
  data model gives it the members \<open>Pkix\<close>, \<open>Pgp\<close> and \<open>Jwt\<close>, which are the three the
  \<^verbatim>\<open>switch\<close> of \<^verbatim>\<open>VerifyAttestation\<close> names; every other value the Go type can hold is
  \<open>OtherKeyType n\<close>, and reaches the \<^verbatim>\<open>default\<close> branch.
\<close>

datatype KeyType = Pkix | Pgp | Jwt | OtherKeyType nat

record PublicKey =
  KeyType :: KeyType
  KeyData :: bytes
  ID :: string

definition NewPublicKey :: "KeyType \<Rightarrow> bytes \<Rightarrow> string \<Rightarrow> PublicKey" where
  "NewPublicKey keyType keyData keyID =
     \<lparr>KeyType = keyType, KeyData = keyData, ID = keyID\<rparr>"

text \<open>
  Modelled from the spec: the struct \<^verbatim>\<open>Attestation\<close> is declared outside verifier.go, which
  reads its fields \<^verbatim>\<open>PublicKeyID\<close>, \<^verbatim>\<open>Signature\<close> and \<^verbatim>\<open>SerializedPayload\<close>; the data model
  gives them the types string, bytes and bytes.
\<close>

record Attestation =
  PublicKeyID :: string
  Signature :: bytes
  SerializedPayload :: bytes

record authenticatedAttestation =
  ImageDigest :: string

subsection \<open>The verifier and its backends\<close>

text \<open>
  The four interfaces embedded in the struct \<^verbatim>\<open>verifier\<close>, each with one method. A method
  that returns \<^verbatim>\<open>([]byte, error)\<close> returns a pair. The implementations of the file keep no
  state (they are empty structs), so a backend is a function of its arguments.
\<close>

type_synonym pkixVerifier = "bytes \<Rightarrow> bytes \<Rightarrow> bytes \<Rightarrow> error option"
type_synonym pgpVerifier = "bytes \<Rightarrow> bytes \<Rightarrow> bytes \<times> error option"
type_synonym jwtVerifier = "bytes \<Rightarrow> bytes \<Rightarrow> bytes \<times> error option"
type_synonym authenticatedAuthChecker =
  "authenticatedAttestation \<Rightarrow> string \<Rightarrow> error option"

text \<open>
  The struct \<^verbatim>\<open>verifier\<close>. An embedded interface field may be nil (\<open>None\<close>) in a value
  made inside the package; \<^verbatim>\<open>NewVerifier\<close> fills all four.
\<close>

record verifier =
  ImageDigest :: string
  PublicKeys :: "string \<rightharpoonup> PublicKey"
  pkixVerifier :: "pkixVerifier option"
  pgpVerifier :: "pgpVerifier option"
  jwtVerifier :: "jwtVerifier option"
  authenticatedAuthChecker :: "authenticatedAuthChecker option"

definition pkixVerifierImpl :: pkixVerifier where
  "pkixVerifierImpl signature payload publicKey =
     Some (errors_New ''verify pkix not implemented'')"

definition jwtVerifierImpl :: jwtVerifier where
  "jwtVerifierImpl signature publicKey =
     ([], Some (errors_New ''verify jwt not implemented''))"

definition formAuthenticatedAttestation :: "bytes \<Rightarrow> authenticatedAttestation" where
  "formAuthenticatedAttestation payload = \<lparr>authenticatedAttestation.ImageDigest = ''''\<rparr>"

definition attAuthChecker :: authenticatedAuthChecker where
  "attAuthChecker actual imageDigest =
     (if authenticatedAttestation.ImageDigest actual \<noteq> imageDigest
      then Some (errors_New ''invalid payload for authenticated attestation'')
      else None)"

subsection \<open>The key index\<close>

text \<open>
  The loop of \<^verbatim>\<open>indexPublicKeysByID\<close>, with the map built so far and the warnings logged so
  far as accumulators. A key whose ID is already in the map is logged and then stored over the
  earlier one.
\<close>

fun indexLoop ::
  "(string \<rightharpoonup> PublicKey) \<Rightarrow> logline list \<Rightarrow> PublicKey list
     \<Rightarrow> (string \<rightharpoonup> PublicKey) \<times> logline list" where
  "indexLoop keyMap logged [] = (keyMap, logged)"
| "indexLoop keyMap logged (publicKey # rest) =
     indexLoop (keyMap(ID publicKey \<mapsto> publicKey))
       (case keyMap (ID publicKey) of
          Some _ \<Rightarrow> logged @
            [glog_Warningf
               ''Key with ID %q already exists in publicKeySet. Overwriting previous key.''
               [ID publicKey]]
        | None \<Rightarrow> logged)
       rest"

text \<open>\<^verbatim>\<open>indexPublicKeysByID\<close> returns the map; the second component is what it logged.\<close>

definition indexPublicKeysByID ::
  "PublicKey list \<Rightarrow> (string \<rightharpoonup> PublicKey) \<times> logline list" where
  "indexPublicKeysByID publicKeyset = indexLoop Map.empty [] publicKeyset"

text \<open>
  \<^verbatim>\<open>NewVerifier\<close> returns the verifier and an error, and logs what the index logs. The type
  \<^verbatim>\<open>pgpVerifierImpl\<close> it installs is declared outside verifier.go, so the PGP backend is the
  first argument here.
\<close>

definition NewVerifier ::
  "pgpVerifier \<Rightarrow> string \<Rightarrow> PublicKey list \<Rightarrow> (verifier \<times> error option) \<times> logline list" where
  "NewVerifier pgpVerifierImpl imageDigest publicKeySet =
     (let (keyMap, logged) = indexPublicKeysByID publicKeySet
      in ((\<lparr>ImageDigest = imageDigest,
             PublicKeys = keyMap,
             pkixVerifier = Some pkixVerifierImpl,
             pgpVerifier = Some pgpVerifierImpl,
             jwtVerifier = Some jwtVerifierImpl,
             authenticatedAuthChecker = Some attAuthChecker\<rparr>, None), logged))"

subsection \<open>Verifying an attestation\<close>

text \<open>A call either returns a value or panics (a nil pointer or a nil interface is used).\<close>

datatype 'a outcome = Returns 'a | Panics

text \<open>The calls \<^verbatim>\<open>VerifyAttestation\<close> makes, with their arguments, in the order made.\<close>

datatype call =
    Call_verifyPkix bytes bytes bytes
  | Call_verifyPgp bytes bytes
  | Call_verifyJwt bytes bytes
  | Call_formAuthenticatedAttestation bytes
  | Call_checkAuthenticatedAttestation authenticatedAttestation string

text \<open>
  One run of the method: the receiver as the call leaves it, the calls made, and the error
  returned (\<open>None\<close> is the nil error, success).
\<close>

record run =
  receiver :: verifier
  calls :: "call list"
  result :: "error option outcome"

text \<open>
  \<^verbatim>\<open>VerifyAttestation\<close>. The argument is a pointer, nil being \<open>None\<close>; the receiver is taken
  to be non-nil. The \<^verbatim>\<open>switch\<close> yields the calls it made and either a panic, or \<open>None\<close> for
  the \<^verbatim>\<open>default\<close> branch (which returns at once), or the variables \<^verbatim>\<open>payload\<close> and
  \<^verbatim>\<open>err\<close>. No statement of the method assigns to a field of the receiver.
\<close>

definition VerifyAttestation :: "verifier \<Rightarrow> Attestation option \<Rightarrow> run" where
  "VerifyAttestation v att_ptr =
     (case att_ptr of
        None \<Rightarrow> \<lparr>receiver = v, calls = [], result = Panics\<rparr>
      | Some att \<Rightarrow>
         (case PublicKeys v (PublicKeyID att) of
            None \<Rightarrow>
              \<lparr>receiver = v, calls = [],
               result = Returns (Some (fmt_Errorf ''no public key with ID %q found''
                                         [PublicKeyID att]))\<rparr>
          | Some publicKey \<Rightarrow>
             (let switch =
                (case KeyType publicKey of
                   Pkix \<Rightarrow>
                     (case pkixVerifier v of
                        None \<Rightarrow> ([], Panics)
                      | Some impl \<Rightarrow>
                          ([Call_verifyPkix (Signature att) (SerializedPayload att)
                              (KeyData publicKey)],
                           Returns (Some (SerializedPayload att,
                             impl (Signature att) (SerializedPayload att)
                               (KeyData publicKey)))))
                 | Pgp \<Rightarrow>
                     (case pgpVerifier v of
                        None \<Rightarrow> ([], Panics)
                      | Some impl \<Rightarrow>
                          ([Call_verifyPgp (Signature att) (KeyData publicKey)],
                           Returns (Some (impl (Signature att) (KeyData publicKey)))))
                 | Jwt \<Rightarrow>
                     (case jwtVerifier v of
                        None \<Rightarrow> ([], Panics)
                      | Some impl \<Rightarrow>
                          ([Call_verifyJwt (Signature att) (KeyData publicKey)],
                           Returns (Some (impl (Signature att) (KeyData publicKey)))))
                 | OtherKeyType n \<Rightarrow> ([], Returns None))
              in case switch of
                   (made, Panics) \<Rightarrow> \<lparr>receiver = v, calls = made, result = Panics\<rparr>
                 | (made, Returns None) \<Rightarrow>
                     \<lparr>receiver = v, calls = made,
                      result = Returns (Some (errors_New
                                 ''signature uses an unsupported key mode''))\<rparr>
                 | (made, Returns (Some (payload, Some err))) \<Rightarrow>
                     \<lparr>receiver = v, calls = made, result = Returns (Some err)\<rparr>
                 | (made, Returns (Some (payload, None))) \<Rightarrow>
                     (let actual = formAuthenticatedAttestation payload;
                          made = made @ [Call_formAuthenticatedAttestation payload]
                      in case authenticatedAuthChecker v of
                           None \<Rightarrow> \<lparr>receiver = v, calls = made, result = Panics\<rparr>
                         | Some check \<Rightarrow>
                             \<lparr>receiver = v,
                              calls = made @ [Call_checkAuthenticatedAttestation actual
                                                (verifier.ImageDigest v)],
                              result = Returns (check actual (verifier.ImageDigest v))\<rparr>))))"

text \<open>The payloads handed to \<^verbatim>\<open>formAuthenticatedAttestation\<close> in a list of calls.\<close>

fun extractorInputs :: "call list \<Rightarrow> bytes list" where
  "extractorInputs [] = []"
| "extractorInputs (Call_formAuthenticatedAttestation payload # cs) =
     payload # extractorInputs cs"
| "extractorInputs (_ # cs) = extractorInputs cs"

subsection \<open>The method with the state its calls can reach\<close>

text \<open>
  A backend is an interface value. The implementations of verifier.go keep no state, but an
  implementation installed inside the package may keep fields of its own, may write to the
  byte slices it is handed, and may hold pointers to what its maker could reach, the
  verifier included. For properties about what a call changes, the state is made explicit:
  a store holds the two data fields of the receiver, the attestation object the argument
  points to, and in \<open>other\<close> everything else a backend can reach (its own fields, package
  variables). The key data and the attestation's bytes are in the store by their contents,
  so writing to a slice is a change of the store. The four interface fields of the receiver
  are taken not to be reassigned during a call.
\<close>

record 'x store =
  v_ImageDigest :: string
  v_PublicKeys :: "string \<rightharpoonup> PublicKey"
  att_object :: Attestation
  other :: 'x

text \<open>The argument of the method: nil, or the address of the store's attestation object.\<close>

datatype att_pointer = NilPointer | ToAttestation

text \<open>A backend method takes the store and returns its result with the store it leaves.\<close>

type_synonym 'x pkixBackend =
  "bytes \<Rightarrow> bytes \<Rightarrow> bytes \<Rightarrow> 'x store \<Rightarrow> error option \<times> 'x store"
type_synonym 'x pgpBackend =
  "bytes \<Rightarrow> bytes \<Rightarrow> 'x store \<Rightarrow> (bytes \<times> error option) \<times> 'x store"
type_synonym 'x jwtBackend =
  "bytes \<Rightarrow> bytes \<Rightarrow> 'x store \<Rightarrow> (bytes \<times> error option) \<times> 'x store"
type_synonym 'x checkBackend =
  "authenticatedAttestation \<Rightarrow> string \<Rightarrow> 'x store \<Rightarrow> error option \<times> 'x store"

record 'x backends =
  pkixBackend :: "'x pkixBackend option"
  pgpBackend :: "'x pgpBackend option"
  jwtBackend :: "'x jwtBackend option"
  checkBackend :: "'x checkBackend option"

record 'x store_run =
  trace :: "call list"
  returned :: "error option outcome"
  store_after :: "'x store"

text \<open>
  \<^verbatim>\<open>VerifyAttestation\<close> again, statement by statement, each read made in the store as it is
  at that point: the key is looked up and the arguments of the algorithm verifier are read
  before its call (in \<open>s0\<close>); \<^verbatim>\<open>payload = att.SerializedPayload\<close> of the Pkix branch and
  \<^verbatim>\<open>v.ImageDigest\<close>, the argument of the checker, are read after it (in \<open>s1\<close>). The method
  itself writes nothing: the store changes only as the backends change it.
\<close>

definition VerifyAttestation_store ::
  "'x backends \<Rightarrow> att_pointer \<Rightarrow> 'x store \<Rightarrow> 'x store_run" where
  "VerifyAttestation_store b att s0 =
     (case att of
        NilPointer \<Rightarrow> \<lparr>trace = [], returned = Panics, store_after = s0\<rparr>
      | ToAttestation \<Rightarrow>
         (case v_PublicKeys s0 (PublicKeyID (att_object s0)) of
            None \<Rightarrow>
              \<lparr>trace = [],
               returned = Returns (Some (fmt_Errorf ''no public key with ID %q found''
                                           [PublicKeyID (att_object s0)])),
               store_after = s0\<rparr>
          | Some publicKey \<Rightarrow>
             (let switch =
                (case KeyType publicKey of
                   Pkix \<Rightarrow>
                     (case pkixBackend b of
                        None \<Rightarrow> ([], Panics, s0)
                      | Some impl \<Rightarrow>
                          (let (err, s1) =
                                 impl (Signature (att_object s0))
                                   (SerializedPayload (att_object s0)) (KeyData publicKey) s0
                           in ([Call_verifyPkix (Signature (att_object s0))
                                  (SerializedPayload (att_object s0)) (KeyData publicKey)],
                               Returns (Some (SerializedPayload (att_object s1), err)),
                               s1)))
                 | Pgp \<Rightarrow>
                     (case pgpBackend b of
                        None \<Rightarrow> ([], Panics, s0)
                      | Some impl \<Rightarrow>
                          (let (payload_err, s1) =
                                 impl (Signature (att_object s0)) (KeyData publicKey) s0
                           in ([Call_verifyPgp (Signature (att_object s0)) (KeyData publicKey)],
                               Returns (Some payload_err), s1)))
                 | Jwt \<Rightarrow>
                     (case jwtBackend b of
                        None \<Rightarrow> ([], Panics, s0)
                      | Some impl \<Rightarrow>
                          (let (payload_err, s1) =
                                 impl (Signature (att_object s0)) (KeyData publicKey) s0
                           in ([Call_verifyJwt (Signature (att_object s0)) (KeyData publicKey)],
                               Returns (Some payload_err), s1)))
                 | OtherKeyType n \<Rightarrow> ([], Returns None, s0))
              in case switch of
                   (made, Panics, s1) \<Rightarrow>
                     \<lparr>trace = made, returned = Panics, store_after = s1\<rparr>
                 | (made, Returns None, s1) \<Rightarrow>
                     \<lparr>trace = made,
                      returned = Returns (Some (errors_New
                                   ''signature uses an unsupported key mode'')),
                      store_after = s1\<rparr>
                 | (made, Returns (Some (payload, Some err)), s1) \<Rightarrow>
                     \<lparr>trace = made, returned = Returns (Some err), store_after = s1\<rparr>
                 | (made, Returns (Some (payload, None)), s1) \<Rightarrow>
                     (let actual = formAuthenticatedAttestation payload;
                          made = made @ [Call_formAuthenticatedAttestation payload]
                      in case checkBackend b of
                           None \<Rightarrow> \<lparr>trace = made, returned = Panics, store_after = s1\<rparr>
                         | Some check \<Rightarrow>
                             (let (err, s2) = check actual (v_ImageDigest s1) s1
                              in \<lparr>trace = made @ [Call_checkAuthenticatedAttestation actual
                                                     (v_ImageDigest s1)],
                                  returned = Returns err,
                                  store_after = s2\<rparr>)))))"

text \<open>
  The link between the two embeddings: the backends of a verifier, as backends that leave
  the store alone, and the store that holds a verifier's data and an attestation.
\<close>

definition stateless :: "verifier \<Rightarrow> 'x backends" where
  "stateless v =
     \<lparr>pkixBackend = map_option (\<lambda>impl sg p k s. (impl sg p k, s)) (pkixVerifier v),
      pgpBackend = map_option (\<lambda>impl sg k s. (impl sg k, s)) (pgpVerifier v),
      jwtBackend = map_option (\<lambda>impl sg k s. (impl sg k, s)) (jwtVerifier v),
      checkBackend = map_option (\<lambda>impl a d s. (impl a d, s)) (authenticatedAuthChecker v)\<rparr>"

definition store_of :: "verifier \<Rightarrow> Attestation \<Rightarrow> 'x \<Rightarrow> 'x store" where
  "store_of v a x =
     \<lparr>v_ImageDigest = verifier.ImageDigest v, v_PublicKeys = PublicKeys v,
      att_object = a, other = x\<rparr>"



section \<open>Properties\<close>

subsection \<open>The key index: what the loop computes\<close>

text \<open>
  Looking an ID up in the index gives the last key of the input with that ID, or what the
  starting map held when the input has no such key.
\<close>

lemma indexLoop_lookup:
  "fst (indexLoop keyMap logged ks) i =
     (case filter (\<lambda>k. ID k = i) ks of
        [] \<Rightarrow> keyMap i
      | k # rest \<Rightarrow> Some (last (k # rest)))"
  by (induction ks arbitrary: keyMap logged) (auto split: list.splits)

text \<open>
  A warning about an ID is in the log exactly when it was there before, or the ID occurs twice
  in the input, or it occurs once and the starting map already held it.
\<close>

lemma indexLoop_logged:
  "(glog_Warningf f [i] \<in> set (snd (indexLoop keyMap logged ks))) =
     (glog_Warningf f [i] \<in> set logged \<or>
      (f = ''Key with ID %q already exists in publicKeySet. Overwriting previous key.'' \<and>
       (2 \<le> length (filter (\<lambda>k. ID k = i) ks) \<or>
        (keyMap i \<noteq> None \<and> 1 \<le> length (filter (\<lambda>k. ID k = i) ks)))))"
  by (induction ks arbitrary: keyMap logged) (auto split: option.splits)

lemma indexPublicKeysByID_absent:
  assumes "i \<notin> ID ` set ks"
  shows "fst (indexPublicKeysByID ks) i = None"
proof -
  from assms have "filter (\<lambda>k. ID k = i) ks = []"
    by (auto simp: filter_empty_conv)
  then show ?thesis
    by (simp add: indexPublicKeysByID_def indexLoop_lookup)
qed

lemma indexPublicKeysByID_present:
  assumes "filter (\<lambda>k. ID k = i) ks \<noteq> []"
  shows "fst (indexPublicKeysByID ks) i = Some (last (filter (\<lambda>k. ID k = i) ks))"
  using assms
  by (simp add: indexPublicKeysByID_def indexLoop_lookup split: list.splits)

lemma NewVerifier_fields:
  "NewVerifier pgpImpl d ks =
     ((\<lparr>ImageDigest = d,
        PublicKeys = fst (indexPublicKeysByID ks),
        pkixVerifier = Some pkixVerifierImpl,
        pgpVerifier = Some pgpImpl,
        jwtVerifier = Some jwtVerifierImpl,
        authenticatedAuthChecker = Some attAuthChecker\<rparr>, None),
      snd (indexPublicKeysByID ks))"
  by (simp add: NewVerifier_def split: prod.splits)

subsection \<open>The two embeddings agree\<close>

text \<open>
  With backends that leave the store alone, the method with the explicit store makes the
  calls and returns the result of \<open>VerifyAttestation\<close>, and leaves the store as it was.
\<close>

lemma VerifyAttestation_store_nil:
  "VerifyAttestation_store b NilPointer s = \<lparr>trace = [], returned = Panics, store_after = s\<rparr>"
  by (simp add: VerifyAttestation_store_def)

lemma VerifyAttestation_store_stateless:
  "VerifyAttestation_store (stateless v) ToAttestation (store_of v a x) =
     \<lparr>trace = calls (VerifyAttestation v (Some a)),
      returned = result (VerifyAttestation v (Some a)),
      store_after = store_of v a x\<rparr>"
proof (cases "PublicKeys v (PublicKeyID a)")
  case None
  then show ?thesis
    by (simp add: VerifyAttestation_store_def VerifyAttestation_def store_of_def)
next
  case (Some publicKey)
  show ?thesis
  proof (cases "KeyType publicKey")
    case Pkix
    with Some show ?thesis
      by (cases "pkixVerifier v"; cases "authenticatedAuthChecker v")
        (simp_all add: VerifyAttestation_store_def VerifyAttestation_def store_of_def
           stateless_def Let_def split: option.splits)
  next
    case Pgp
    with Some show ?thesis
      by (cases "pgpVerifier v"; cases "authenticatedAuthChecker v")
        (simp_all add: VerifyAttestation_store_def VerifyAttestation_def store_of_def
           stateless_def Let_def split: option.splits prod.splits)
  next
    case Jwt
    with Some show ?thesis
      by (cases "jwtVerifier v"; cases "authenticatedAuthChecker v")
        (simp_all add: VerifyAttestation_store_def VerifyAttestation_def store_of_def
           stateless_def Let_def split: option.splits prod.splits)
  next
    case (OtherKeyType n)
    with Some show ?thesis
      by (simp add: VerifyAttestation_store_def VerifyAttestation_def store_of_def)
  qed
qed

subsection \<open>The claims\<close>

text \<open>
  C1. Scenario A on the code: one PKIX key with ID "k1", an attestation that names "k1", an
  expected digest "sha256:abc". With a PKIX backend that accepts the signature,
  \<^verbatim>\<open>VerifyAttestation\<close> does not return nil: whatever the payload bytes are, it returns the
  error "invalid payload for authenticated attestation", because
  \<^verbatim>\<open>formAuthenticatedAttestation\<close> never reads the payload. With the verifier that
  \<^verbatim>\<open>NewVerifier\<close> builds, the PKIX backend is the stub of the file and the result is the error
  "verify pkix not implemented".
\<close>

theorem scenario_A_on_the_code:
  "result (VerifyAttestation
     \<lparr>ImageDigest = ''sha256:abc'',
      PublicKeys = fst (indexPublicKeysByID
                     [\<lparr>KeyType = Pkix, KeyData = keyData, ID = ''k1''\<rparr>]),
      pkixVerifier = Some (\<lambda>signature payload publicKey. None),
      pgpVerifier = pgp, jwtVerifier = jwt,
      authenticatedAuthChecker = Some attAuthChecker\<rparr>
     (Some \<lparr>PublicKeyID = ''k1'', Signature = signature, SerializedPayload = payload\<rparr>))
   = Returns (Some (errors_New ''invalid payload for authenticated attestation''))
   \<and> result (VerifyAttestation
     (fst (fst (NewVerifier pgpImpl ''sha256:abc''
                  [\<lparr>KeyType = Pkix, KeyData = keyData, ID = ''k1''\<rparr>])))
     (Some \<lparr>PublicKeyID = ''k1'', Signature = signature, SerializedPayload = payload\<rparr>))
   = Returns (Some (errors_New ''verify pkix not implemented''))"
  by (simp add: VerifyAttestation_def NewVerifier_fields indexPublicKeysByID_def
        Let_def attAuthChecker_def formAuthenticatedAttestation_def pkixVerifierImpl_def)

text \<open>
  C2. Whatever the key set \<open>K\<close> the index was built from and whatever the attestation, if
  the attestation's PublicKeyID is the ID of no key of \<open>K\<close>, then \<^verbatim>\<open>VerifyAttestation\<close>
  returns the error "no public key with ID ... found" (the unknown key ID error), and it
  makes no call at all: no algorithm verifier, no extractor, no trust check. The backends of
  the verifier are arbitrary, nil included.
\<close>

theorem unknown_key_id:
  assumes "PublicKeyID a \<notin> ID ` set K"
    and "PublicKeys v = fst (indexPublicKeysByID K)"
  shows "VerifyAttestation v (Some a) =
           \<lparr>receiver = v, calls = [],
            result = Returns (Some (fmt_Errorf ''no public key with ID %q found''
                                      [PublicKeyID a]))\<rparr>"
  using assms by (simp add: VerifyAttestation_def indexPublicKeysByID_absent)

theorem unknown_key_id_witness:
  "''missing'' \<notin> ID ` set [\<lparr>KeyType = Pkix, KeyData = [], ID = ''k1''\<rparr>]
   \<and> VerifyAttestation
        (fst (fst (NewVerifier (\<lambda>s k. ([], None)) ''sha256:abc''
                     [\<lparr>KeyType = Pkix, KeyData = [], ID = ''k1''\<rparr>])))
        (Some \<lparr>PublicKeyID = ''missing'', Signature = [], SerializedPayload = []\<rparr>)
      = \<lparr>receiver = fst (fst (NewVerifier (\<lambda>s k. ([], None)) ''sha256:abc''
                     [\<lparr>KeyType = Pkix, KeyData = [], ID = ''k1''\<rparr>])),
         calls = [],
         result = Returns (Some (fmt_Errorf ''no public key with ID %q found''
                                   [''missing'']))\<rparr>"
  using unknown_key_id
    [of "\<lparr>PublicKeyID = ''missing'', Signature = [], SerializedPayload = []\<rparr>"
        "[\<lparr>KeyType = Pkix, KeyData = [], ID = ''k1''\<rparr>]"
        "fst (fst (NewVerifier (\<lambda>s k. ([], None)) ''sha256:abc''
                     [\<lparr>KeyType = Pkix, KeyData = [], ID = ''k1''\<rparr>]))"]
  by (simp add: NewVerifier_fields)

text \<open>
  C3. When two or more keys of the input share an ID, building the index is not fatal:
  \<^verbatim>\<open>NewVerifier\<close> returns a nil error and a verifier that holds the index; the index maps
  that ID to exactly one key, the last key of the input with that ID; and a warning naming
  the ID is logged.
\<close>

theorem duplicate_id_last_wins:
  assumes "2 \<le> length (filter (\<lambda>k. ID k = i) ks)"
  shows "snd (fst (NewVerifier pgpImpl d ks)) = None
       \<and> PublicKeys (fst (fst (NewVerifier pgpImpl d ks))) = fst (indexPublicKeysByID ks)
       \<and> (\<exists>!k. fst (indexPublicKeysByID ks) i = Some k)
       \<and> fst (indexPublicKeysByID ks) i = Some (last (filter (\<lambda>k. ID k = i) ks))
       \<and> glog_Warningf
           ''Key with ID %q already exists in publicKeySet. Overwriting previous key.'' [i]
           \<in> set (snd (indexPublicKeysByID ks))"
proof -
  from assms have ne: "filter (\<lambda>k. ID k = i) ks \<noteq> []"
    by auto
  have look: "fst (indexPublicKeysByID ks) i = Some (last (filter (\<lambda>k. ID k = i) ks))"
    using ne by (rule indexPublicKeysByID_present)
  have warned: "glog_Warningf
      ''Key with ID %q already exists in publicKeySet. Overwriting previous key.'' [i]
      \<in> set (snd (indexPublicKeysByID ks))"
    using assms by (simp add: indexPublicKeysByID_def indexLoop_logged)
  show ?thesis
    using look warned by (simp add: NewVerifier_fields)
qed

theorem duplicate_id_last_wins_witness:
  "2 \<le> length (filter (\<lambda>k. ID k = ''k1'')
        [\<lparr>KeyType = Pkix, KeyData = [1], ID = ''k1''\<rparr>,
         \<lparr>KeyType = Pgp, KeyData = [2], ID = ''k2''\<rparr>,
         \<lparr>KeyType = Jwt, KeyData = [3], ID = ''k1''\<rparr>])
   \<and> fst (indexPublicKeysByID
        [\<lparr>KeyType = Pkix, KeyData = [1], ID = ''k1''\<rparr>,
         \<lparr>KeyType = Pgp, KeyData = [2], ID = ''k2''\<rparr>,
         \<lparr>KeyType = Jwt, KeyData = [3], ID = ''k1''\<rparr>]) ''k1''
     = Some \<lparr>KeyType = Jwt, KeyData = [3], ID = ''k1''\<rparr>"
  using duplicate_id_last_wins
    [of "''k1''"
        "[\<lparr>KeyType = Pkix, KeyData = [1], ID = ''k1''\<rparr>,
          \<lparr>KeyType = Pgp, KeyData = [2], ID = ''k2''\<rparr>,
          \<lparr>KeyType = Jwt, KeyData = [3], ID = ''k1''\<rparr>]"]
  by simp

text \<open>
  C4. When the attestation's PublicKeyID resolves to a key whose KeyType is none of Pkix, Pgp
  and Jwt, \<^verbatim>\<open>VerifyAttestation\<close> returns the error "signature uses an unsupported key mode",
  for every Signature and every SerializedPayload, and for every choice of backends (nil
  ones included): none of them is called.
\<close>

theorem unsupported_key_mode:
  assumes "PublicKeys v i = Some k"
    and "KeyType k \<noteq> Pkix" and "KeyType k \<noteq> Pgp" and "KeyType k \<noteq> Jwt"
  shows "VerifyAttestation v
           (Some \<lparr>PublicKeyID = i, Signature = s, SerializedPayload = p\<rparr>) =
           \<lparr>receiver = v, calls = [],
            result = Returns (Some (errors_New
                       ''signature uses an unsupported key mode''))\<rparr>"
  using assms by (cases "KeyType k") (simp_all add: VerifyAttestation_def)

theorem unsupported_key_mode_witness:
  "VerifyAttestation
     \<lparr>ImageDigest = ''sha256:abc'',
      PublicKeys = [''k9'' \<mapsto> \<lparr>KeyType = OtherKeyType 7, KeyData = [1], ID = ''k9''\<rparr>],
      pkixVerifier = None, pgpVerifier = None, jwtVerifier = None,
      authenticatedAuthChecker = None\<rparr>
     (Some \<lparr>PublicKeyID = ''k9'', Signature = [2], SerializedPayload = [3]\<rparr>)
   = \<lparr>receiver =
        \<lparr>ImageDigest = ''sha256:abc'',
         PublicKeys = [''k9'' \<mapsto> \<lparr>KeyType = OtherKeyType 7, KeyData = [1], ID = ''k9''\<rparr>],
         pkixVerifier = None, pgpVerifier = None, jwtVerifier = None,
         authenticatedAuthChecker = None\<rparr>,
      calls = [],
      result = Returns (Some (errors_New ''signature uses an unsupported key mode''))\<rparr>"
  using unsupported_key_mode
    [of "\<lparr>ImageDigest = ''sha256:abc'',
         PublicKeys = [''k9'' \<mapsto> \<lparr>KeyType = OtherKeyType 7, KeyData = [1], ID = ''k9''\<rparr>],
         pkixVerifier = None, pgpVerifier = None, jwtVerifier = None,
         authenticatedAuthChecker = None\<rparr>"
        "''k9''" "\<lparr>KeyType = OtherKeyType 7, KeyData = [1], ID = ''k9''\<rparr>" "[2]" "[3]"]
  by simp

text \<open>
  C5. When the attestation resolves to a Pkix key and the PKIX verifier returns nil, the
  extractor \<^verbatim>\<open>formAuthenticatedAttestation\<close> is called once, and its argument is the
  attestation's SerializedPayload as it is; the two first calls are the PKIX verifier, on the
  Signature, the SerializedPayload and the KeyData, and then the extractor.
\<close>

theorem pkix_payload_unchanged:
  assumes "PublicKeys v (PublicKeyID a) = Some k"
    and "KeyType k = Pkix"
    and "pkixVerifier v = Some impl"
    and "impl (Signature a) (SerializedPayload a) (KeyData k) = None"
  shows "extractorInputs (calls (VerifyAttestation v (Some a))) = [SerializedPayload a]
       \<and> take 2 (calls (VerifyAttestation v (Some a))) =
           [Call_verifyPkix (Signature a) (SerializedPayload a) (KeyData k),
            Call_formAuthenticatedAttestation (SerializedPayload a)]"
  using assms by (simp add: VerifyAttestation_def Let_def split: option.splits)

theorem pkix_payload_unchanged_witness:
  "extractorInputs (calls (VerifyAttestation
     \<lparr>ImageDigest = ''sha256:abc'',
      PublicKeys = [''k1'' \<mapsto> \<lparr>KeyType = Pkix, KeyData = [1], ID = ''k1''\<rparr>],
      pkixVerifier = Some (\<lambda>s p k. None), pgpVerifier = None, jwtVerifier = None,
      authenticatedAuthChecker = Some attAuthChecker\<rparr>
     (Some \<lparr>PublicKeyID = ''k1'', Signature = [2], SerializedPayload = [3, 4]\<rparr>)))
   = [[3, 4]]"
  using pkix_payload_unchanged
    [of "\<lparr>ImageDigest = ''sha256:abc'',
      PublicKeys = [''k1'' \<mapsto> \<lparr>KeyType = Pkix, KeyData = [1], ID = ''k1''\<rparr>],
      pkixVerifier = Some (\<lambda>s p k. None), pgpVerifier = None, jwtVerifier = None,
      authenticatedAuthChecker = Some attAuthChecker\<rparr>"
      "\<lparr>PublicKeyID = ''k1'', Signature = [2], SerializedPayload = [3, 4]\<rparr>"
      "\<lparr>KeyType = Pkix, KeyData = [1], ID = ''k1''\<rparr>"
      "\<lambda>s p k. None"]
  by simp

text \<open>
  C6. The digest check \<^verbatim>\<open>checkAuthenticatedAttestation\<close> returns nil exactly when the
  claim's ImageDigest equals the expected digest as a string; in every other case, an empty
  claim digest against a non-empty expected digest among them, it returns the error
  "invalid payload for authenticated attestation" (the trust mismatch).
\<close>

theorem checkAuthenticatedAttestation_exact:
  "(attAuthChecker actual imageDigest = None)
     = (authenticatedAttestation.ImageDigest actual = imageDigest)
   \<and> attAuthChecker actual imageDigest
     = (if authenticatedAttestation.ImageDigest actual = imageDigest then None
        else Some (errors_New ''invalid payload for authenticated attestation''))
   \<and> attAuthChecker \<lparr>authenticatedAttestation.ImageDigest = ''''\<rparr> (c # cs)
     = Some (errors_New ''invalid payload for authenticated attestation'')"
  by (simp add: attAuthChecker_def)




text \<open>
  C9. For every image digest, every list of public keys (the empty list and lists with
  repeated IDs among them) and every PGP backend, \<^verbatim>\<open>NewVerifier\<close> returns a nil error
  together with a verifier that holds the digest, the index of the keys and the four
  backends; for the empty list the index is the empty map.
\<close>

theorem NewVerifier_never_fails:
  "snd (fst (NewVerifier pgpImpl d ks)) = None
   \<and> fst (fst (NewVerifier pgpImpl d ks)) =
       \<lparr>ImageDigest = d,
        PublicKeys = fst (indexPublicKeysByID ks),
        pkixVerifier = Some pkixVerifierImpl,
        pgpVerifier = Some pgpImpl,
        jwtVerifier = Some jwtVerifierImpl,
        authenticatedAuthChecker = Some attAuthChecker\<rparr>
   \<and> PublicKeys (fst (fst (NewVerifier pgpImpl d []))) = Map.empty"
  by (simp add: NewVerifier_fields indexPublicKeysByID_def)

text \<open>
  C10. For every payload, \<^verbatim>\<open>formAuthenticatedAttestation\<close> returns a claim whose ImageDigest
  is the empty string. So when the key is found, the algorithm verifier selected by its type
  returns nil, and the checker is \<^verbatim>\<open>attAuthChecker\<close> (as \<^verbatim>\<open>NewVerifier\<close> installs it),
  \<^verbatim>\<open>VerifyAttestation\<close> returns nil exactly when the verifier's ImageDigest is the empty
  string, and the error "invalid payload for authenticated attestation" otherwise.
\<close>

theorem extractor_digest_empty:
  assumes "PublicKeys v (PublicKeyID a) = Some k"
    and "(KeyType k = Pkix \<and> pkixVerifier v = Some pkix
            \<and> pkix (Signature a) (SerializedPayload a) (KeyData k) = None)
       \<or> (KeyType k = Pgp \<and> pgpVerifier v = Some pgp
            \<and> snd (pgp (Signature a) (KeyData k)) = None)
       \<or> (KeyType k = Jwt \<and> jwtVerifier v = Some jwt
            \<and> snd (jwt (Signature a) (KeyData k)) = None)"
    and "authenticatedAuthChecker v = Some attAuthChecker"
  shows "authenticatedAttestation.ImageDigest (formAuthenticatedAttestation payload) = ''''
       \<and> (result (VerifyAttestation v (Some a)) = Returns None)
           = (verifier.ImageDigest v = '''')
       \<and> result (VerifyAttestation v (Some a)) =
           (if verifier.ImageDigest v = '''' then Returns None
            else Returns (Some (errors_New
                   ''invalid payload for authenticated attestation'')))"
proof -
  have form: "authenticatedAttestation.ImageDigest (formAuthenticatedAttestation payload) = ''''"
    by (simp add: formAuthenticatedAttestation_def)
  have res: "result (VerifyAttestation v (Some a)) =
           (if verifier.ImageDigest v = '''' then Returns None
            else Returns (Some (errors_New
                   ''invalid payload for authenticated attestation'')))"
    using assms
    by (auto simp: VerifyAttestation_def Let_def attAuthChecker_def
          formAuthenticatedAttestation_def split: prod.splits)
  show ?thesis
    using form res by simp
qed

theorem extractor_digest_empty_witness:
  "result (VerifyAttestation
     (fst (fst (NewVerifier (\<lambda>s k. ([5], None)) ''''
                  [\<lparr>KeyType = Pgp, KeyData = [1], ID = ''k1''\<rparr>])))
     (Some \<lparr>PublicKeyID = ''k1'', Signature = [2], SerializedPayload = [3]\<rparr>))
   = Returns None
   \<and> result (VerifyAttestation
     (fst (fst (NewVerifier (\<lambda>s k. ([5], None)) ''sha256:abc''
                  [\<lparr>KeyType = Pgp, KeyData = [1], ID = ''k1''\<rparr>])))
     (Some \<lparr>PublicKeyID = ''k1'', Signature = [2], SerializedPayload = [3]\<rparr>))
   = Returns (Some (errors_New ''invalid payload for authenticated attestation''))"
  using extractor_digest_empty
    [of "fst (fst (NewVerifier (\<lambda>s k. ([5], None)) ''''
                  [\<lparr>KeyType = Pgp, KeyData = [1], ID = ''k1''\<rparr>]))"
        "\<lparr>PublicKeyID = ''k1'', Signature = [2], SerializedPayload = [3]\<rparr>"
        "\<lparr>KeyType = Pgp, KeyData = [1], ID = ''k1''\<rparr>"
        "\<lambda>s p k. None" "\<lambda>s k. ([5], None)" "\<lambda>s k. ([], None)"]
    extractor_digest_empty
    [of "fst (fst (NewVerifier (\<lambda>s k. ([5], None)) ''sha256:abc''
                  [\<lparr>KeyType = Pgp, KeyData = [1], ID = ''k1''\<rparr>]))"
        "\<lparr>PublicKeyID = ''k1'', Signature = [2], SerializedPayload = [3]\<rparr>"
        "\<lparr>KeyType = Pgp, KeyData = [1], ID = ''k1''\<rparr>"
        "\<lambda>s p k. None" "\<lambda>s k. ([5], None)" "\<lambda>s k. ([], None)"]
  by (simp add: NewVerifier_fields indexPublicKeysByID_def)

end
